theory Spec2Isabelle
  imports Complex_Main
begin

section \<open>External calls, traces and asynchronous procedures\<close>

text \<open>
  The repository is a set of thin asynchronous wrappers around collaborators it does not
  implement: the Capacitor bridge, the AdMob plugin, the status-bar and fullscreen
  plugins, the Web Fullscreen API and the backend's remote procedures. An \<open>async\<close>
  function is modelled as a procedure that threads the state of its module (or component)
  and the trace of the external calls made so far, and returns either the value its
  promise resolves with (\<open>Inr\<close>) or the exception it rejects with (\<open>Inl\<close>).

  Every collaborator call is an entry of the trace. An awaited call is one entry: the
  procedure is suspended until the promise has settled, so the next entry of the trace is
  made after the previous awaited call has completed. A call whose returned promise is not
  awaited is recorded as \<open>Invoked\<close>: only its synchronous part has completed.
\<close>

datatype outcome = Ok | Failed

datatype fs_api = Standard | Webkit | Moz | Ms

datatype call =
    OnOrientationLocked
  | SetTimeout nat
  | ImportFullscreenPlugin
  | ActivateImmersiveMode
  | DeactivateImmersiveMode
  | StatusBarHide
  | StatusBarShow
  | StatusBarSetOverlaysWebView bool
  | StatusBarSetStyle string
  | StatusBarSetBackgroundColor string
  | RequestFullscreen fs_api bool
  | ExitFullscreen fs_api
  | BrowserOpen string "string option" "string option"
  | AdMobInitialize bool
  | AdMobShowBanner string string string "nat option" bool
  | AdMobHideBanner
  | AdMobPrepareInterstitial string bool
  | AdMobShowInterstitial
  | AdMobAddRewardedListener
  | AdMobPrepareRewardVideoAd string bool
  | AdMobShowRewardVideoAd
  | SelectAppAdSettings
  | SelectAppAds string
  | Rpc string string string rat

datatype exn = Rejection call | URIError | TypeError | BackendError string

text \<open>
  What a toast says. The amounts are numbers the code formats with \<open>toFixed(2)\<close>;
  \<open>ErrorMessageOr e d\<close> stands for \<open>error.message || d\<close>.
\<close>

datatype toast_text =
    NeedToSubscribe rat
  | BalanceAndNeed rat rat
  | WelcomeTo string
  | SubscribedTo string rat
  | ErrorMessageOr exn string

datatype event =
    Awaited call outcome
  | Invoked call outcome
  | ConsoleLog string
  | ConsoleError string
  | Toast string toast_text bool
  | OnOpenChange bool
  | Navigate string
  | Started string

text \<open>
  The environment of a run: the two answers of the Capacitor bridge, for every
  collaborator call whether it fails, which may depend on everything that happened before,
  and the strings on which JavaScript's \<open>encodeURIComponent\<close> throws a URIError (a
  lone surrogate, which a HOL string cannot show).
\<close>

record env =
  isNativePlatform :: bool
  getPlatform :: string
  fails :: "event list \<Rightarrow> call \<Rightarrow> bool"
  malformedURI :: "string \<Rightarrow> bool"

type_synonym ('s, 'a) io = "'s \<times> event list \<Rightarrow> (exn + 'a) \<times> 's \<times> event list"

definition io_return :: "'a \<Rightarrow> ('s, 'a) io" where
  "io_return x = (\<lambda>(s, tr). (Inr x, s, tr))"

definition io_throw :: "exn \<Rightarrow> ('s, 'a) io" where
  "io_throw e = (\<lambda>(s, tr). (Inl e, s, tr))"

definition io_bind :: "('s, 'a) io \<Rightarrow> ('a \<Rightarrow> ('s, 'b) io) \<Rightarrow> ('s, 'b) io" where
  "io_bind m f = (\<lambda>w. case m w of
       (Inl e, s, tr) \<Rightarrow> (Inl e, s, tr)
     | (Inr x, s, tr) \<Rightarrow> f x (s, tr))"

definition io_seq :: "('s, 'a) io \<Rightarrow> ('s, 'b) io \<Rightarrow> ('s, 'b) io" where
  "io_seq m n = io_bind m (\<lambda>_. n)"

fun io_seqs :: "('s, unit) io list \<Rightarrow> ('s, unit) io" where
  "io_seqs [] = io_return ()"
| "io_seqs (m # ms) = io_seq m (io_seqs ms)"

definition try_catch :: "('s, 'a) io \<Rightarrow> (exn \<Rightarrow> ('s, 'a) io) \<Rightarrow> ('s, 'a) io" where
  "try_catch m h = (\<lambda>w. case m w of
       (Inl e, s, tr) \<Rightarrow> h e (s, tr)
     | (Inr x, s, tr) \<Rightarrow> (Inr x, s, tr))"

definition try_finally :: "('s, 'a) io \<Rightarrow> ('s, unit) io \<Rightarrow> ('s, 'a) io" where
  "try_finally m f = (\<lambda>w. case m w of
       (r, s, tr) \<Rightarrow> (case f (s, tr) of
           (Inl e, s', tr') \<Rightarrow> (Inl e, s', tr')
         | (Inr _, s', tr') \<Rightarrow> (r, s', tr')))"

definition emit :: "event \<Rightarrow> ('s, unit) io" where
  "emit ev = (\<lambda>(s, tr). (Inr (), s, tr @ [ev]))"

definition await :: "env \<Rightarrow> call \<Rightarrow> ('s, unit) io" where
  "await E c = (\<lambda>(s, tr).
     if fails E tr c then (Inl (Rejection c), s, tr @ [Awaited c Failed])
     else (Inr (), s, tr @ [Awaited c Ok]))"

definition invoke :: "env \<Rightarrow> call \<Rightarrow> ('s, unit) io" where
  "invoke E c = (\<lambda>(s, tr).
     if fails E tr c then (Inl (Rejection c), s, tr @ [Invoked c Failed])
     else (Inr (), s, tr @ [Invoked c Ok]))"

text \<open>\<open>await new Promise(resolve => setTimeout(resolve, ms))\<close>: a timer cannot fail.\<close>

definition delay :: "nat \<Rightarrow> ('s, unit) io" where
  "delay ms = emit (Awaited (SetTimeout ms) Ok)"

definition console_log :: "string \<Rightarrow> ('s, unit) io" where
  "console_log msg = emit (ConsoleLog msg)"

definition console_error :: "string \<Rightarrow> ('s, unit) io" where
  "console_error msg = emit (ConsoleError msg)"

definition io_modify :: "('s \<Rightarrow> 's) \<Rightarrow> ('s, unit) io" where
  "io_modify f = (\<lambda>(s, tr). (Inr (), f s, tr))"

definition io_get :: "('s, 's) io" where
  "io_get = (\<lambda>(s, tr). (Inr s, s, tr))"

text \<open>The calls of a trace, in order, and the failures in it.\<close>

fun call_of :: "event \<Rightarrow> call option" where
  "call_of (Awaited c _) = Some c"
| "call_of (Invoked c _) = Some c"
| "call_of _ = None"

definition calls_of :: "event list \<Rightarrow> call list" where
  "calls_of tr = List.map_filter call_of tr"

fun is_failure :: "event \<Rightarrow> bool" where
  "is_failure (Awaited _ Failed) = True"
| "is_failure (Invoked _ Failed) = True"
| "is_failure _ = False"

definition any_failed :: "event list \<Rightarrow> bool" where
  "any_failed tr = list_ex is_failure tr"

section \<open>Tablet-landscape detection (use-tablet-landscape.tsx)\<close>

definition MIN_TABLET_WIDTH :: int where
  "MIN_TABLET_WIDTH = 768"

definition MAX_TABLET_WIDTH :: int where
  "MAX_TABLET_WIDTH = 1279"

text \<open>
  The value \<open>checkIsTabletLandscape\<close> passes to \<open>setIsTabletLandscape\<close>, for
  \<open>window.innerWidth\<close> and \<open>window.innerHeight\<close> (integers, in CSS pixels).
\<close>

definition checkIsTabletLandscape :: "int \<Rightarrow> int \<Rightarrow> bool" where
  "checkIsTabletLandscape width height =
     (let isLandscape = width > height;
          shorterDimension = min width height;
          isTabletDevice = shorterDimension \<ge> MIN_TABLET_WIDTH \<and> shorterDimension \<le> MAX_TABLET_WIDTH;
          widthAboveTabletPortrait = width > MAX_TABLET_WIDTH
      in isLandscape \<and> (isTabletDevice \<or> (shorterDimension \<ge> MIN_TABLET_WIDTH \<and> widthAboveTabletPortrait)))"

section \<open>The Web Fullscreen API as the code sees it\<close>

text \<open>
  An element and the document, reduced to what the code tests: which of the vendor
  variants of a method exist, and which of the fullscreen-element properties are set.
\<close>

record element =
  has_requestFullscreen :: bool
  has_webkitRequestFullscreen :: bool
  has_mozRequestFullScreen :: bool
  has_msRequestFullscreen :: bool

record document =
  fullscreenElement :: bool
  webkitFullscreenElement :: bool
  mozFullScreenElement :: bool
  msFullscreenElement :: bool
  has_exitFullscreen :: bool
  has_webkitExitFullscreen :: bool
  has_mozCancelFullScreen :: bool
  has_msExitFullscreen :: bool
  documentElement :: element

section \<open>toggleFullscreen (useFullscreenState.tsx)\<close>

definition isCurrentlyFullscreen :: "document \<Rightarrow> bool" where
  "isCurrentlyFullscreen doc =
     (fullscreenElement doc \<or> webkitFullscreenElement doc \<or> mozFullScreenElement doc)"

definition toggleFullscreen :: "env \<Rightarrow> document \<Rightarrow> element option \<Rightarrow> ('s, bool) io" where
  "toggleFullscreen E doc el =
     (let target = (case el of Some e \<Rightarrow> e | None \<Rightarrow> documentElement doc)
      in try_catch
           (if isCurrentlyFullscreen doc then
              io_seq
                (if has_exitFullscreen doc then await E (ExitFullscreen Standard)
                 else if has_webkitExitFullscreen doc then await E (ExitFullscreen Webkit)
                 else io_return ())
                (io_return False)
            else
              io_seq
                (if has_requestFullscreen target then await E (RequestFullscreen Standard False)
                 else if has_webkitRequestFullscreen target then await E (RequestFullscreen Webkit False)
                 else io_return ())
                (io_return True))
           (\<lambda>error. io_seq (console_log ''Fullscreen toggle failed:'')
                           (io_return (isCurrentlyFullscreen doc))))"

section \<open>playWithExoPlayer (useExoPlayer.tsx)\<close>





section \<open>The native status bar module (useNativeStatusBar.tsx)\<close>







section \<open>Immersive mode and video fullscreen (useImmersiveMode.tsx)\<close>







section \<open>Sample environments and elements\<close>

text \<open>
  An environment in which exactly the listed calls fail, whenever they are made, and an
  element of a browser that has the standard \<open>requestFullscreen\<close>.
\<close>

definition env_where :: "bool \<Rightarrow> string \<Rightarrow> call list \<Rightarrow> env" where
  "env_where native platform failing =
     \<lparr>isNativePlatform = native, getPlatform = platform,
      fails = (\<lambda>tr c. c \<in> set failing), malformedURI = (\<lambda>u. False)\<rparr>"


section \<open>The AdMob service (admobService.ts)\<close>

text \<open>
  The module-level state of the service: \<open>let isInitialized = false\<close>, and in the
  variant of the service that reads its settings from the dashboard also
  \<open>let cachedSettings = null\<close>. The version in admobService.ts has the flag only and
  never touches \<open>cachedSettings\<close>.
\<close>

record app_ad =
  ad_type :: string
  ad_unit_id :: string
  placement :: string
  is_active :: bool
  is_test_mode :: bool

record cached_settings =
  enabled :: bool
  testMode :: bool
  ads :: "app_ad list"

record admob_module =
  isInitialized :: bool
  cachedSettings :: "cached_settings option"





text \<open>\<open>isNativeApp\<close> (useNativeApp.tsx) asks the bridge inside a \<open>try\<close> of its own.\<close>

definition isNativeApp :: "env \<Rightarrow> bool" where
  "isNativeApp E = isNativePlatform E"






record reward_item =
  reward_type :: string
  reward_amount :: nat


section \<open>The AdMob service with dashboard settings\<close>

text \<open>
  A row of \<open>app_ad_settings\<close>: its key and its JSON value, which may be \<open>null\<close>, and of
  which the code reads the members \<open>enabled\<close> and \<open>test_mode\<close> (\<open>None\<close> when the
  member is missing or not a boolean).
\<close>

record setting_value =
  value_enabled :: "bool option"
  value_test_mode :: "bool option"

type_synonym setting_row = "string \<times> setting_value option"

text \<open>
  The \<open>forEach\<close> over the settings rows: the last \<open>global_settings\<close> row wins, and
  reading a member of a \<open>null\<close> value throws a TypeError.
\<close>

fun parseSettings :: "setting_row list \<Rightarrow> bool \<times> bool \<Rightarrow> exn + bool \<times> bool" where
  "parseSettings [] acc = Inr acc"
| "parseSettings ((setting_key, v) # rest) acc =
     (if setting_key = ''global_settings'' then
        (case v of
           None \<Rightarrow> Inl TypeError
         | Some val \<Rightarrow> parseSettings rest (value_enabled val \<noteq> Some False, value_test_mode val = Some True))
      else parseSettings rest acc)"

text \<open>
  The answers of the two queries of one \<open>fetchSettings\<close>: the \<open>data\<close> member of each
  response (\<open>null\<close> when the query reports an error). A query that rejects is a failing
  call of the environment.
\<close>

record settings_answers =
  settingsData :: "setting_row list option"
  adsData :: "app_ad list option"

definition fetchSettings ::
  "env \<Rightarrow> settings_answers \<Rightarrow> (admob_module, cached_settings option) io" where
  "fetchSettings E ans =
     (if \<not> isNativeApp E then io_return None
      else
        try_catch
          (io_seq (await E SelectAppAdSettings)
          (io_seq (await E (SelectAppAds (getPlatform E)))
             (case parseSettings (case settingsData ans of None \<Rightarrow> [] | Some rows \<Rightarrow> rows) (True, False) of
                Inl e \<Rightarrow> io_throw e
              | Inr (en, tm) \<Rightarrow>
                  io_seq (io_modify (\<lambda>m. m\<lparr>cachedSettings :=
                            Some \<lparr>enabled = en, testMode = tm,
                                  ads = (case adsData ans of None \<Rightarrow> [] | Some rows \<Rightarrow> rows)\<rparr>\<rparr>))
                         (io_bind io_get (\<lambda>m. io_return (cachedSettings m))))))
          (\<lambda>error. io_seq (console_error ''Error fetching AdMob settings:'') (io_return None)))"


definition isAdsEnabled :: "admob_module \<Rightarrow> bool" where
  "isAdsEnabled m = (case cachedSettings m of None \<Rightarrow> False | Some c \<Rightarrow> enabled c)"

definition isTestModeEnabled :: "admob_module \<Rightarrow> bool" where
  "isTestModeEnabled m = (case cachedSettings m of None \<Rightarrow> True | Some c \<Rightarrow> testMode c)"

definition refreshAdSettings :: "env \<Rightarrow> settings_answers \<Rightarrow> (admob_module, unit) io" where
  "refreshAdSettings E ans = io_seq (fetchSettings E ans) (io_return ())"



fun init_attempted :: "event \<Rightarrow> bool" where
  "init_attempted (Awaited (AdMobInitialize _) _) = True"
| "init_attempted _ = False"


definition fresh_admob_module :: admob_module where
  "fresh_admob_module = \<lparr>isInitialized = False, cachedSettings = None\<rparr>"


section \<open>The purchase handlers\<close>

text \<open>
  A membership plan and the signed-in user, with the fields the handlers read. Amounts
  are JavaScript numbers read from JSON, hence finite: they are compared as rationals.
\<close>

record plan =
  plan_id :: string
  plan_name :: string
  price :: rat

record user =
  user_id :: string

text \<open>
  \<open>await supabase.rpc(name, { p_user_id, p_plan_id, p_amount })\<close> followed by
  \<open>if (error) throw error\<close>: the call fails when the promise rejects (the environment
  decides) or when the response carries an error, whose message is the last argument.
\<close>

definition rpc_or_throw ::
  "env \<Rightarrow> string \<Rightarrow> string \<Rightarrow> string \<Rightarrow> rat \<Rightarrow> string option \<Rightarrow> ('s, unit) io" where
  "rpc_or_throw E name p_user_id p_plan_id p_amount response_error =
     (\<lambda>(s, tr).
        if fails E tr (Rpc name p_user_id p_plan_id p_amount) then
          (Inl (Rejection (Rpc name p_user_id p_plan_id p_amount)), s,
           tr @ [Awaited (Rpc name p_user_id p_plan_id p_amount) Failed])
        else
          (case response_error of
             Some msg \<Rightarrow> (Inl (BackendError msg), s,
                          tr @ [Awaited (Rpc name p_user_id p_plan_id p_amount) Failed])
           | None \<Rightarrow> (Inr (), s, tr @ [Awaited (Rpc name p_user_id p_plan_id p_amount) Ok])))"

subsection \<open>handlePurchase (MobileVIPPanel.tsx)\<close>

record vip_panel =
  selectedPlan :: "plan option"
  walletBalance :: rat
  processingPurchase :: bool

text \<open>
  \<open>fetchWalletBalance()\<close> and \<open>checkCurrentMembership()\<close> are started without
  \<open>await\<close>; each has a \<open>try\<close> of its own around all it does.
\<close>

definition handlePurchase :: "env \<Rightarrow> user option \<Rightarrow> string option \<Rightarrow> (vip_panel, unit) io" where
  "handlePurchase E usr response_error =
     io_bind io_get (\<lambda>st.
       case (selectedPlan st, usr) of
         (Some pl, Some u) \<Rightarrow>
           if walletBalance st < price pl then
             emit (Toast ''Insufficient Balance'' (NeedToSubscribe (price pl)) True)
           else
             io_seq (io_modify (\<lambda>st. st\<lparr>processingPurchase := True\<rparr>))
               (try_finally
                  (try_catch
                     (io_seqs [rpc_or_throw E ''purchase_membership_with_wallet''
                                 (user_id u) (plan_id pl) (price pl) response_error,
                               emit (Toast ''VIP Activated!'' (WelcomeTo (plan_name pl)) False),
                               emit (OnOpenChange False),
                               io_modify (\<lambda>st. st\<lparr>selectedPlan := None\<rparr>),
                               emit (Started ''fetchWalletBalance''),
                               emit (Started ''checkCurrentMembership'')])
                     (\<lambda>error.
                        io_seqs [console_error ''Error subscribing:'',
                                 emit (Toast ''Failed'' (ErrorMessageOr error ''Something went wrong'') True)]))
                  (io_modify (\<lambda>st. st\<lparr>processingPurchase := False\<rparr>)))
       | _ \<Rightarrow> io_return ())"

subsection \<open>handleConfirmPurchase (the subscriptions page)\<close>

text \<open>
  On the page \<open>selectedPlan\<close> holds the id of the plan being bought and
  \<open>confirmPlanDetails\<close> the plan the user picked.
\<close>

record subscriptions_page =
  confirmPlanDetails :: "plan option"
  selectedPlan_id :: "string option"
  walletBalance_page :: rat
  confirmDialogOpen :: bool

definition handleConfirmPurchase ::
  "env \<Rightarrow> user option \<Rightarrow> string option \<Rightarrow> (subscriptions_page, unit) io" where
  "handleConfirmPurchase E usr response_error =
     io_bind io_get (\<lambda>st.
       case (confirmPlanDetails st, usr) of
         (Some pl, Some u) \<Rightarrow>
           io_seq (io_modify (\<lambda>st. st\<lparr>selectedPlan_id := Some (plan_id pl)\<rparr>))
             (try_finally
                (try_catch
                   (if walletBalance_page st < price pl then
                      io_seqs [emit (Toast ''Insufficient Balance''
                                  (BalanceAndNeed (walletBalance_page st) (price pl)) True),
                               io_modify (\<lambda>st. st\<lparr>selectedPlan_id := None\<rparr>),
                               io_modify (\<lambda>st. st\<lparr>confirmDialogOpen := False\<rparr>),
                               emit (Navigate ''/dashboard'')]
                    else
                      io_seqs [rpc_or_throw E ''purchase_membership_with_wallet''
                                 (user_id u) (plan_id pl) (price pl) response_error,
                               emit (Toast ''Subscription Successful!''
                                  (SubscribedTo (plan_name pl) (price pl)) False),
                               io_modify (\<lambda>st. st\<lparr>confirmDialogOpen := False\<rparr>),
                               emit (Started ''checkCurrentMembership''),
                               emit (Started ''fetchWalletBalance'')])
                   (\<lambda>error.
                      io_seqs [console_error ''Error subscribing:'',
                               emit (Toast ''Subscription Failed''
                                  (ErrorMessageOr error ''Something went wrong'') True)]))
                (io_modify (\<lambda>st. st\<lparr>selectedPlan_id := None\<rparr>)))
       | _ \<Rightarrow> io_return ())"

text \<open>The remote procedure calls of a trace, and its insufficient-balance toasts.\<close>

fun is_rpc :: "call \<Rightarrow> bool" where
  "is_rpc (Rpc _ _ _ _) = True"
| "is_rpc _ = False"

definition rpcs_of :: "event list \<Rightarrow> call list" where
  "rpcs_of tr = filter is_rpc (calls_of tr)"

fun is_insufficient_balance :: "event \<Rightarrow> bool" where
  "is_insufficient_balance (Toast title _ destructive) = (title = ''Insufficient Balance'' \<and> destructive)"
| "is_insufficient_balance _ = False"

section \<open>The native banner ad slot (NativeBannerAdSlot, viewport-tracking variant)\<close>









section \<open>The global fullscreen state (useFullscreenState.tsx)\<close>

text \<open>
  The module-level variables \<open>let globalIsFullscreen = false\<close> and
  \<open>const listeners = new Set()\<close>. A listener is the closure that a mounted
  \<open>useFullscreenState\<close> hook registers, which stores the new value in the hook's own
  state: a listener is named by its hook instance, and \<open>hookState\<close> holds the state of
  each instance.
\<close>

record fullscreen_module =
  globalIsFullscreen :: bool
  listeners :: "nat list"
  hookState :: "nat \<Rightarrow> bool"

definition initial_fullscreen_module :: fullscreen_module where
  "initial_fullscreen_module =
     \<lparr>globalIsFullscreen = False, listeners = [], hookState = (\<lambda>i. False)\<rparr>"

definition getGlobalFullscreenState :: "fullscreen_module \<Rightarrow> bool" where
  "getGlobalFullscreenState m = globalIsFullscreen m"

definition setGlobalFullscreenState :: "bool \<Rightarrow> fullscreen_module \<Rightarrow> fullscreen_module" where
  "setGlobalFullscreenState v m =
     fold (\<lambda>listener m. m\<lparr>hookState := (hookState m)(listener := v)\<rparr>) (listeners m)
       (m\<lparr>globalIsFullscreen := v\<rparr>)"

text \<open>
  Mounting a \<open>useFullscreenState\<close> hook: \<open>useState(globalIsFullscreen)\<close>, then the
  effect adds the listener; unmounting deletes it.
\<close>

definition mountFullscreenHook :: "nat \<Rightarrow> fullscreen_module \<Rightarrow> fullscreen_module" where
  "mountFullscreenHook i m =
     m\<lparr>hookState := (hookState m)(i := globalIsFullscreen m),
        listeners := (if i \<in> set (listeners m) then listeners m else listeners m @ [i])\<rparr>"

definition unmountFullscreenHook :: "nat \<Rightarrow> fullscreen_module \<Rightarrow> fullscreen_module" where
  "unmountFullscreenHook i m = m\<lparr>listeners := removeAll i (listeners m)\<rparr>"

section \<open>The remaining wrappers of the dashboard ad service and of the status bar\<close>












section \<open>What a wrapper does about a failure\<close>






section \<open>Properties\<close>

lemmas io_defs =
  io_return_def io_throw_def io_bind_def io_seq_def try_catch_def try_finally_def
  emit_def await_def invoke_def delay_def console_log_def console_error_def
  io_modify_def io_get_def

subsection \<open>Tablet-landscape detection\<close>

text \<open>
  Claim C10. The detector classifies a window as tablet-landscape exactly when
  \<open>width > height\<close> and either the shorter dimension lies in \<open>[768, 1279]\<close>, or the
  shorter dimension is at least 768 and the width exceeds 1279. A landscape window whose
  shorter dimension exceeds 1279 is therefore still classified as tablet-landscape, for
  example 2000 by 1300; in a landscape window the test amounts to \<open>height \<ge> 768\<close>.
\<close>

theorem checkIsTabletLandscape_characterisation:
  "(checkIsTabletLandscape width height \<longleftrightarrow>
      width > height \<and>
      ((768 \<le> min width height \<and> min width height \<le> 1279) \<or>
       (768 \<le> min width height \<and> width > 1279)))
   \<and> (checkIsTabletLandscape width height \<longleftrightarrow> width > height \<and> height \<ge> 768)
   \<and> checkIsTabletLandscape 2000 1300"
  by (auto simp add: checkIsTabletLandscape_def MIN_TABLET_WIDTH_def MAX_TABLET_WIDTH_def Let_def)

theorem checkIsTabletLandscape_witness:
  "checkIsTabletLandscape 1024 768 \<and> \<not> checkIsTabletLandscape 768 1024
   \<and> \<not> checkIsTabletLandscape 1000 700 \<and> checkIsTabletLandscape 2000 1300"
  using checkIsTabletLandscape_characterisation [of 1024 768]
    checkIsTabletLandscape_characterisation [of 768 1024]
    checkIsTabletLandscape_characterisation [of 1000 700]
  by simp

subsection \<open>toggleFullscreen and playWithExoPlayer\<close>

text \<open>
  Claim C8. \<open>toggleFullscreen\<close> returns the negation of the fullscreen state it observed
  on entry when the underlying enter or exit call succeeds (\<open>True\<close> after entering,
  \<open>False\<close> after exiting), and the unchanged observed state when the call throws. It
  never rejects.
\<close>

theorem toggleFullscreen_result:
  "toggleFullscreen E doc el (s, []) = (r, s', tr) \<Longrightarrow>
     r = Inr (if any_failed tr then isCurrentlyFullscreen doc else \<not> isCurrentlyFullscreen doc)"
  by (auto simp add: toggleFullscreen_def io_defs any_failed_def Let_def split: if_splits)

theorem toggleFullscreen_result_witness:
  "toggleFullscreen \<lparr>isNativePlatform = False, getPlatform = ''web'', fails = (\<lambda>tr c. False),
        malformedURI = (\<lambda>u. False)\<rparr>
      \<lparr>fullscreenElement = True, webkitFullscreenElement = False, mozFullScreenElement = False,
        msFullscreenElement = False, has_exitFullscreen = True, has_webkitExitFullscreen = False,
        has_mozCancelFullScreen = False, has_msExitFullscreen = False,
        documentElement = \<lparr>has_requestFullscreen = True, has_webkitRequestFullscreen = False,
          has_mozRequestFullScreen = False, has_msRequestFullscreen = False\<rparr>\<rparr>
      None ((), [])
    = (Inr False, (), [Awaited (ExitFullscreen Standard) Ok])
   \<and> toggleFullscreen \<lparr>isNativePlatform = False, getPlatform = ''web'', fails = (\<lambda>tr c. True),
        malformedURI = (\<lambda>u. False)\<rparr>
      \<lparr>fullscreenElement = True, webkitFullscreenElement = False, mozFullScreenElement = False,
        msFullscreenElement = False, has_exitFullscreen = True, has_webkitExitFullscreen = False,
        has_mozCancelFullScreen = False, has_msExitFullscreen = False,
        documentElement = \<lparr>has_requestFullscreen = True, has_webkitRequestFullscreen = False,
          has_mozRequestFullScreen = False, has_msRequestFullscreen = False\<rparr>\<rparr>
      None ((), [])
    = (Inr True, (), [Awaited (ExitFullscreen Standard) Failed, ConsoleLog ''Fullscreen toggle failed:''])"
proof -
  let ?doc = "\<lparr>fullscreenElement = True, webkitFullscreenElement = False, mozFullScreenElement = False,
        msFullscreenElement = False, has_exitFullscreen = True, has_webkitExitFullscreen = False,
        has_mozCancelFullScreen = False, has_msExitFullscreen = False,
        documentElement = \<lparr>has_requestFullscreen = True, has_webkitRequestFullscreen = False,
          has_mozRequestFullScreen = False, has_msRequestFullscreen = False\<rparr>\<rparr>"
  let ?ok = "\<lparr>isNativePlatform = False, getPlatform = ''web'', fails = (\<lambda>tr c. False),
        malformedURI = (\<lambda>u. False)\<rparr>"
  let ?bad = "\<lparr>isNativePlatform = False, getPlatform = ''web'', fails = (\<lambda>tr c. True),
        malformedURI = (\<lambda>u. False)\<rparr>"
  have a: "toggleFullscreen ?ok ?doc None ((), []) = (Inr False, (), [Awaited (ExitFullscreen Standard) Ok])"
    by (simp add: toggleFullscreen_def io_defs isCurrentlyFullscreen_def)
  have b: "toggleFullscreen ?bad ?doc None ((), [])
      = (Inr True, (), [Awaited (ExitFullscreen Standard) Failed, ConsoleLog ''Fullscreen toggle failed:''])"
    by (simp add: toggleFullscreen_def io_defs isCurrentlyFullscreen_def)
  from toggleFullscreen_result [OF a] toggleFullscreen_result [OF b] a b show ?thesis
    by simp
qed



subsection \<open>Traces\<close>


lemma calls_of_Nil: "calls_of [] = []"
  by (simp add: calls_of_def List.map_filter_def)

lemma calls_of_Cons:
  "calls_of (e # es) = (case call_of e of None \<Rightarrow> calls_of es | Some c \<Rightarrow> c # calls_of es)"
  by (cases "call_of e") (simp_all add: calls_of_def List.map_filter_simps)

subsection \<open>The order of the calls of enterVideoFullscreen\<close>





subsection \<open>Initialization of the ad SDK\<close>










subsection \<open>The purchase handlers\<close>

lemma handlePurchase_insufficient:
  "selectedPlan st = Some pl \<Longrightarrow> walletBalance st < price pl \<Longrightarrow>
     handlePurchase E (Some u) response_error (st, tr)
       = (Inr (), st, tr @ [Toast ''Insufficient Balance'' (NeedToSubscribe (price pl)) True])"
  by (simp add: handlePurchase_def io_defs)

lemma handlePurchase_sufficient:
  "selectedPlan st = Some pl \<Longrightarrow> \<not> walletBalance st < price pl \<Longrightarrow>
     \<exists>out st' rest. handlePurchase E (Some u) response_error (st, tr)
       = (Inr (), st', tr @ Awaited (Rpc ''purchase_membership_with_wallet''
                                      (user_id u) (plan_id pl) (price pl)) out # rest)
       \<and> calls_of rest = []"
  by (cases response_error)
    (simp_all add: handlePurchase_def rpc_or_throw_def io_defs calls_of_Cons calls_of_Nil)

lemma handleConfirmPurchase_insufficient:
  "confirmPlanDetails pg = Some pl \<Longrightarrow> walletBalance_page pg < price pl \<Longrightarrow>
     \<exists>pg'. handleConfirmPurchase E (Some u) response_error (pg, tr)
       = (Inr (), pg', tr @ [Toast ''Insufficient Balance''
             (BalanceAndNeed (walletBalance_page pg) (price pl)) True, Navigate ''/dashboard''])"
  by (simp add: handleConfirmPurchase_def io_defs)

lemma handleConfirmPurchase_sufficient:
  "confirmPlanDetails pg = Some pl \<Longrightarrow> \<not> walletBalance_page pg < price pl \<Longrightarrow>
     \<exists>out pg' rest. handleConfirmPurchase E (Some u) response_error (pg, tr)
       = (Inr (), pg', tr @ Awaited (Rpc ''purchase_membership_with_wallet''
                                      (user_id u) (plan_id pl) (price pl)) out # rest)
       \<and> calls_of rest = []"
  by (cases response_error)
    (simp_all add: handleConfirmPurchase_def rpc_or_throw_def io_defs calls_of_Cons calls_of_Nil)

lemma rpcs_of_purchase:
  "calls_of rest = [] \<Longrightarrow> rpcs_of (Awaited (Rpc name a b c) out # rest) = [Rpc name a b c]"
  by (simp add: rpcs_of_def calls_of_Cons)

text \<open>
  Claim C1. For a signed-in user and a selected plan, each purchase handler (the one of
  the mobile VIP panel and the one of the subscriptions page) calls the remote procedure
  \<open>purchase_membership_with_wallet\<close> with \<open>p_user_id\<close> the user's id, \<open>p_plan_id\<close>
  the plan's id and \<open>p_amount\<close> the plan's price, once, exactly when the wallet balance
  it holds is at least the price; when the balance is below the price it makes no remote
  call and shows the insufficient-balance toast.
\<close>

theorem purchase_rpc_arguments:
  assumes sel: "selectedPlan st = Some pl"
    and run: "handlePurchase E (Some u) response_error (st, []) = (r, st', tr)"
    and sel': "confirmPlanDetails pg = Some pl'"
    and run': "handleConfirmPurchase E (Some u) response_error' (pg, []) = (r', pg', tr')"
  shows "rpcs_of tr =
           (if walletBalance st \<ge> price pl
            then [Rpc ''purchase_membership_with_wallet'' (user_id u) (plan_id pl) (price pl)]
            else [])
       \<and> (if walletBalance st < price pl then list_ex is_insufficient_balance tr else True)
       \<and> rpcs_of tr' =
           (if walletBalance_page pg \<ge> price pl'
            then [Rpc ''purchase_membership_with_wallet'' (user_id u) (plan_id pl') (price pl')]
            else [])
       \<and> (if walletBalance_page pg < price pl' then list_ex is_insufficient_balance tr' else True)"
proof -
  have a: "rpcs_of tr =
           (if walletBalance st \<ge> price pl
            then [Rpc ''purchase_membership_with_wallet'' (user_id u) (plan_id pl) (price pl)]
            else [])
       \<and> (if walletBalance st < price pl then list_ex is_insufficient_balance tr else True)"
  proof (cases "walletBalance st < price pl")
    case True
    from handlePurchase_insufficient [OF sel True, of E u response_error "[]"] run True
    show ?thesis
      by (auto simp add: rpcs_of_def calls_of_Cons calls_of_Nil)
  next
    case False
    from handlePurchase_sufficient [OF sel False, of E u response_error "[]"] run
    obtain out rest where "tr = Awaited (Rpc ''purchase_membership_with_wallet''
        (user_id u) (plan_id pl) (price pl)) out # rest" and "calls_of rest = []"
      by auto
    with False show ?thesis
      by (simp add: rpcs_of_purchase)
  qed
  have b: "rpcs_of tr' =
           (if walletBalance_page pg \<ge> price pl'
            then [Rpc ''purchase_membership_with_wallet'' (user_id u) (plan_id pl') (price pl')]
            else [])
       \<and> (if walletBalance_page pg < price pl' then list_ex is_insufficient_balance tr' else True)"
  proof (cases "walletBalance_page pg < price pl'")
    case True
    from handleConfirmPurchase_insufficient [OF sel' True, of E u response_error' "[]"] run' True
    show ?thesis
      by (auto simp add: rpcs_of_def calls_of_Cons calls_of_Nil)
  next
    case False
    from handleConfirmPurchase_sufficient [OF sel' False, of E u response_error' "[]"] run'
    obtain out rest where "tr' = Awaited (Rpc ''purchase_membership_with_wallet''
        (user_id u) (plan_id pl') (price pl')) out # rest" and "calls_of rest = []"
      by auto
    with False show ?thesis
      by (simp add: rpcs_of_purchase)
  qed
  from a b show ?thesis
    by simp
qed

theorem purchase_rpc_arguments_witness:
  "handlePurchase (env_where True ''android'' []) (Some \<lparr>user_id = ''u-17''\<rparr>) None
       (\<lparr>selectedPlan = Some \<lparr>plan_id = ''vip-month'', plan_name = ''VIP Monthly'', price = 5\<rparr>,
         walletBalance = 12, processingPurchase = False\<rparr>, [])
     = (Inr (),
        \<lparr>selectedPlan = None, walletBalance = 12, processingPurchase = False\<rparr>,
        [Awaited (Rpc ''purchase_membership_with_wallet'' ''u-17'' ''vip-month'' 5) Ok,
         Toast ''VIP Activated!'' (WelcomeTo ''VIP Monthly'') False,
         OnOpenChange False, Started ''fetchWalletBalance'', Started ''checkCurrentMembership''])
   \<and> handleConfirmPurchase (env_where True ''android'' []) (Some \<lparr>user_id = ''u-17''\<rparr>) None
       (\<lparr>confirmPlanDetails = Some \<lparr>plan_id = ''vip-month'', plan_name = ''VIP Monthly'', price = 5\<rparr>,
         selectedPlan_id = None, walletBalance_page = 3, confirmDialogOpen = True\<rparr>, [])
     = (Inr (),
        \<lparr>confirmPlanDetails = Some \<lparr>plan_id = ''vip-month'', plan_name = ''VIP Monthly'', price = 5\<rparr>,
         selectedPlan_id = None, walletBalance_page = 3, confirmDialogOpen = False\<rparr>,
        [Toast ''Insufficient Balance'' (BalanceAndNeed 3 5) True, Navigate ''/dashboard''])
   \<and> rpcs_of [Awaited (Rpc ''purchase_membership_with_wallet'' ''u-17'' ''vip-month'' 5) Ok,
         Toast ''VIP Activated!'' (WelcomeTo ''VIP Monthly'') False,
         OnOpenChange False, Started ''fetchWalletBalance'', Started ''checkCurrentMembership'']
     = [Rpc ''purchase_membership_with_wallet'' ''u-17'' ''vip-month'' 5]
   \<and> rpcs_of [Toast ''Insufficient Balance'' (BalanceAndNeed 3 5) True, Navigate ''/dashboard''] = []"
proof -
  let ?E = "env_where True ''android'' []"
  let ?pl = "\<lparr>plan_id = ''vip-month'', plan_name = ''VIP Monthly'', price = 5\<rparr>"
  let ?st = "\<lparr>selectedPlan = Some ?pl, walletBalance = 12, processingPurchase = False\<rparr>"
  let ?pg = "\<lparr>confirmPlanDetails = Some ?pl, selectedPlan_id = None, walletBalance_page = 3,
      confirmDialogOpen = True\<rparr>"
  have sel: "selectedPlan ?st = Some ?pl" and sel': "confirmPlanDetails ?pg = Some ?pl"
    by simp_all
  have run: "handlePurchase ?E (Some \<lparr>user_id = ''u-17''\<rparr>) None (?st, [])
     = (Inr (),
        \<lparr>selectedPlan = None, walletBalance = 12, processingPurchase = False\<rparr>,
        [Awaited (Rpc ''purchase_membership_with_wallet'' ''u-17'' ''vip-month'' 5) Ok,
         Toast ''VIP Activated!'' (WelcomeTo ''VIP Monthly'') False,
         OnOpenChange False, Started ''fetchWalletBalance'', Started ''checkCurrentMembership''])"
    by (simp add: handlePurchase_def rpc_or_throw_def io_defs env_where_def)
  have run': "handleConfirmPurchase ?E (Some \<lparr>user_id = ''u-17''\<rparr>) None (?pg, [])
     = (Inr (),
        \<lparr>confirmPlanDetails = Some ?pl, selectedPlan_id = None, walletBalance_page = 3,
          confirmDialogOpen = False\<rparr>,
        [Toast ''Insufficient Balance'' (BalanceAndNeed 3 5) True, Navigate ''/dashboard''])"
    by (simp add: handleConfirmPurchase_def rpc_or_throw_def io_defs env_where_def)
  from purchase_rpc_arguments [OF sel run sel' run'] run run' show ?thesis
    by simp
qed

subsection \<open>Failures are caught where the call is made\<close>


















subsection \<open>What follows a failure\<close>










subsection \<open>Module-level state\<close>

lemma notify_fold:
  "hookState (fold (\<lambda>listener m. m\<lparr>hookState := (hookState m)(listener := v)\<rparr>) ls m0) i
           = (if i \<in> set ls then v else hookState m0 i)
   \<and> globalIsFullscreen (fold (\<lambda>listener m. m\<lparr>hookState := (hookState m)(listener := v)\<rparr>) ls m0)
           = globalIsFullscreen m0
   \<and> listeners (fold (\<lambda>listener m. m\<lparr>hookState := (hookState m)(listener := v)\<rparr>) ls m0)
           = listeners m0"
  by (induction ls arbitrary: m0) auto

lemma fetchSettings_cache:
  "fetchSettings E ans (am, tr) = (r, am', tr') \<Longrightarrow>
     (case r of
        Inr (Some c) \<Rightarrow> cachedSettings am' = Some c \<and> isAdsEnabled am' = enabled c
                         \<and> isTestModeEnabled am' = testMode c
      | _ \<Rightarrow> cachedSettings am' = cachedSettings am)"
  by (cases "parseSettings (case settingsData ans of None \<Rightarrow> [] | Some rows \<Rightarrow> rows) (True, False)")
    (auto simp add: fetchSettings_def isNativeApp_def io_defs isAdsEnabled_def isTestModeEnabled_def
       split: if_splits)

text \<open>
  Claim C6 says that no module-level mutable variable holds state that persists across
  screens and operations, in particular no global fullscreen flag, listener set or cached
  ad settings. The code has all three: what \<open>setGlobalFullscreenState\<close> stored is what a
  later \<open>getGlobalFullscreenState\<close> returns and what a mounted hook has received, and
  the settings that one \<open>fetchSettings\<close> stored are what a later \<open>isAdsEnabled\<close>
  reads.
\<close>

theorem module_state_survives_calls:
  "getGlobalFullscreenState initial_fullscreen_module = False
   \<and> getGlobalFullscreenState (setGlobalFullscreenState True initial_fullscreen_module) = True
   \<and> hookState (setGlobalFullscreenState True (mountFullscreenHook 1 initial_fullscreen_module)) 1 = True
   \<and> isAdsEnabled fresh_admob_module = False
   \<and> isAdsEnabled (fst (snd (fetchSettings (env_where True ''android'' [])
         \<lparr>settingsData = Some [(''global_settings'',
             Some \<lparr>value_enabled = Some True, value_test_mode = None\<rparr>)],
          adsData = Some []\<rparr>
         (fresh_admob_module, [])))) = True"
  by (simp add: getGlobalFullscreenState_def setGlobalFullscreenState_def initial_fullscreen_module_def
        mountFullscreenHook_def isAdsEnabled_def fresh_admob_module_def fetchSettings_def
        isNativeApp_def io_defs env_where_def)

text \<open>
  Claim C6, amended. Besides the state of its components the client keeps module-level
  mutable state that outlives screens and calls. The global fullscreen flag and its
  listener set: the value \<open>setGlobalFullscreenState\<close> stores is the value
  \<open>getGlobalFullscreenState\<close> returns afterwards, every registered listener receives
  it, and the listener set is unchanged. The cached ad settings: the settings a
  \<open>fetchSettings\<close> returns are stored in \<open>cachedSettings\<close>, where \<open>isAdsEnabled\<close>
  and \<open>isTestModeEnabled\<close> read them afterwards, and a fetch that returns none leaves
  the earlier cache in place.
\<close>

theorem module_state_persists:
  "getGlobalFullscreenState (setGlobalFullscreenState v m) = v
   \<and> listeners (setGlobalFullscreenState v m) = listeners m
   \<and> hookState (setGlobalFullscreenState v m) i = (if i \<in> set (listeners m) then v else hookState m i)
   \<and> (case fetchSettings E ans (am, tr) of
        (Inr (Some c), am', tr') \<Rightarrow> cachedSettings am' = Some c \<and> isAdsEnabled am' = enabled c
                         \<and> isTestModeEnabled am' = testMode c
      | (_, am', tr') \<Rightarrow> cachedSettings am' = cachedSettings am)"
proof -
  obtain r am' tr' where f: "fetchSettings E ans (am, tr) = (r, am', tr')"
    by (cases "fetchSettings E ans (am, tr)") auto
  from fetchSettings_cache [OF f] f show ?thesis
    by (auto simp add: getGlobalFullscreenState_def setGlobalFullscreenState_def notify_fold
          split: sum.splits option.splits)
qed

theorem module_state_persists_witness:
  "getGlobalFullscreenState
       (setGlobalFullscreenState True (mountFullscreenHook 1 initial_fullscreen_module)) = True
   \<and> listeners (setGlobalFullscreenState True (mountFullscreenHook 1 initial_fullscreen_module)) = [1]
   \<and> hookState (setGlobalFullscreenState True (mountFullscreenHook 1 initial_fullscreen_module)) 1 = True
   \<and> hookState (setGlobalFullscreenState True (mountFullscreenHook 1 initial_fullscreen_module)) 2 = False"
  using module_state_persists [of True "mountFullscreenHook 1 initial_fullscreen_module" 1]
    module_state_persists [of True "mountFullscreenHook 1 initial_fullscreen_module" 2]
  by (simp add: mountFullscreenHook_def initial_fullscreen_module_def)

subsection \<open>The banner and the viewport\<close>






end
